theory Spec2Isabelle
  imports Main "HOL-Library.AList"
begin

section \<open>Roles and HTTP errors\<close>

text \<open>
  \<^verbatim>\<open>class UserRole(str, Enum)\<close> of \<^verbatim>\<open>app/models/user.py\<close> (and, with the same members, of
  \<^verbatim>\<open>Backend.py\<close>). The enumeration is a \<^verbatim>\<open>str\<close> subclass: a member hashes and compares like
  its string value, so the dictionaries keyed by roles are modelled as association lists
  keyed by the values, and they can be asked about any string.
\<close>

datatype UserRole = ADMIN | MANAGER | ANALYST | VIEWER

fun role_value :: "UserRole \<Rightarrow> string" where
  "role_value ADMIN = ''admin''"
| "role_value MANAGER = ''manager''"
| "role_value ANALYST = ''analyst''"
| "role_value VIEWER = ''viewer''"

text \<open>\<^verbatim>\<open>HTTPException(status_code=..., detail=...)\<close>: every \<^verbatim>\<open>raise\<close> of the handlers.\<close>

datatype http_error = HTTPException (status_code: nat) (detail: string)

definition HTTP_400_BAD_REQUEST :: nat where "HTTP_400_BAD_REQUEST = 400"
definition HTTP_401_UNAUTHORIZED :: nat where "HTTP_401_UNAUTHORIZED = 401"
definition HTTP_403_FORBIDDEN :: nat where "HTTP_403_FORBIDDEN = 403"

section \<open>Users, request bodies and the user store\<close>

text \<open>
  The schemas of \<^verbatim>\<open>app/models/app/schemas/user.py\<close>. \<^verbatim>\<open>UserCreate\<close> and \<^verbatim>\<open>UserResponse\<close>
  extend \<^verbatim>\<open>UserBase\<close>; a stored user is the dictionary that \<^verbatim>\<open>create_user\<close> builds: the
  fields of \<^verbatim>\<open>UserResponse\<close> and \<^verbatim>\<open>hashed_password\<close>, so that \<^verbatim>\<open>UserResponse(**user)\<close> is the
  truncation of the record. Instants are seconds as integers. The users of \<^verbatim>\<open>Backend.py\<close>
  have no \<^verbatim>\<open>last_login\<close> key: there the field stays \<open>None\<close>.
\<close>

record UserBase =
  email :: string
  full_name :: string
  role :: UserRole

record UserCreate = UserBase +
  password :: string

record UserResponse = UserBase +
  id :: nat
  is_active :: bool
  created_at :: int
  last_login :: "int option"

record User = UserResponse +
  hashed_password :: string

record UserLogin =
  login_email :: string
  login_password :: string

text \<open>
  A Python dictionary keeps its keys in insertion order and \<^verbatim>\<open>len\<close> counts them: the user
  store is an association list, read with \<^const>\<open>map_of\<close> and written with
  \<^const>\<open>AList.update\<close> (a present key keeps its place, a new key goes to the end).
\<close>

type_synonym users_db = "(string \<times> User) list"

text \<open>
  Building a \<^verbatim>\<open>UserCreate\<close> from a request body. In both trees the schema declares
  \<^verbatim>\<open>role: UserRole = UserRole.VIEWER\<close>: a body without a role gets the default. The
  constraints of the other fields are \<open>UserCreate_valid\<close> and \<open>Backend_UserCreate_valid\<close>
  below.
\<close>

definition UserCreate_of_request ::
    "string \<Rightarrow> string \<Rightarrow> string \<Rightarrow> UserRole option \<Rightarrow> UserCreate" where
  "UserCreate_of_request e pw fn r =
     \<lparr>email = e, full_name = fn,
      role = (case r of None \<Rightarrow> VIEWER | Some supplied \<Rightarrow> supplied),
      password = pw\<rparr>"

text \<open>
  The field constraints of \<^verbatim>\<open>UserCreate\<close>. In the modular tree
  (\<^verbatim>\<open>schemas/user.py\<close>): \<^verbatim>\<open>email: EmailStr\<close>,
  \<^verbatim>\<open>full_name: str = Field(..., min_length=1, max_length=255)\<close> and
  \<^verbatim>\<open>password: str = Field(..., min_length=8, max_length=100)\<close>. In \<^verbatim>\<open>Backend.py\<close>:
  \<^verbatim>\<open>email: EmailStr\<close> only, the password and the name are any \<^verbatim>\<open>str\<close>. The syntax check
  of \<^verbatim>\<open>EmailStr\<close> belongs to a library: the parameter \<open>email_ok\<close>.
\<close>

definition UserCreate_valid :: "(string \<Rightarrow> bool) \<Rightarrow> UserCreate \<Rightarrow> bool" where
  "UserCreate_valid email_ok user_data \<longleftrightarrow>
     email_ok (email user_data)
     \<and> 1 \<le> length (full_name user_data) \<and> length (full_name user_data) \<le> 255
     \<and> 8 \<le> length (password user_data) \<and> length (password user_data) \<le> 100"

definition Backend_UserCreate_valid :: "(string \<Rightarrow> bool) \<Rightarrow> UserCreate \<Rightarrow> bool" where
  "Backend_UserCreate_valid email_ok user_data \<longleftrightarrow> email_ok (email user_data)"

text \<open>
  A body that breaks the constraints of its schema never reaches the operation: the
  framework answers it with its validation error (status 422).
\<close>

datatype validation_error = RequestValidationError

section \<open>Tokens\<close>

text \<open>The claims of a token are a dictionary from claim names to JSON values.\<close>

datatype claim_value = Str string | IntDate int

type_synonym payload = "string \<rightharpoonup> claim_value"

text \<open>
  A bearer credential is any string; the ones that a signer produced carry the key that
  signed them and their claims.
\<close>

datatype jwt = JWT string payload | Malformed string

datatype jwt_error = ExpiredSignatureError | JWTError

text \<open>
  Modelled from the spec: the token codec. \<^verbatim>\<open>Backend.py\<close> calls \<^verbatim>\<open>jwt.encode\<close> and
  \<^verbatim>\<open>jwt.decode\<close> of a signing library, and the modular tree calls \<^verbatim>\<open>auth_service\<close>; neither
  is among the sources. Section 4.2 of the specification: a token is a signed payload;
  verification fails when the signature check fails or the payload is malformed, and fails
  as expired when \<open>now > expiresAt\<close>; otherwise it returns the payload.
\<close>

definition jwt_encode :: "payload \<Rightarrow> string \<Rightarrow> jwt" where
  "jwt_encode claims key = JWT key claims"

definition jwt_decode :: "jwt \<Rightarrow> string \<Rightarrow> int \<Rightarrow> jwt_error + payload" where
  "jwt_decode tok key now =
     (case tok of
        Malformed _ \<Rightarrow> Inl JWTError
      | JWT k claims \<Rightarrow>
          if k \<noteq> key then Inl JWTError
          else (case claims ''exp'' of
                  Some (IntDate expiresAt) \<Rightarrow>
                    if now > expiresAt then Inl ExpiredSignatureError else Inr claims
                | Some (Str _) \<Rightarrow> Inl JWTError
                | None \<Rightarrow> Inr claims))"

record Token =
  access_token :: jwt
  token_type :: string
  user :: UserResponse

text \<open>
  \<^verbatim>\<open>app/services/auth_service.py\<close> is not among the sources: the modular tree takes its
  \<^verbatim>\<open>auth_service\<close> as a parameter, a record of the five functions that the tree calls,
  as they answer during the request at hand.
\<close>

record auth_service =
  verify_token :: "jwt \<Rightarrow> http_error + payload"
  create_access_token :: "payload \<Rightarrow> jwt"
  get_password_hash :: "string \<Rightarrow> string"
  verify_password :: "string \<Rightarrow> string \<Rightarrow> bool"
  validate_password_strength :: "string \<Rightarrow> bool"

text \<open>
  Modelled from the spec: \<^verbatim>\<open>validate_password_strength\<close> of the missing \<^verbatim>\<open>auth_service\<close>.
  Section 4.4: length at least 8, containing an upper-case letter, a lower-case letter and
  at least one digit.
\<close>

definition validate_password_strength_spec :: "string \<Rightarrow> bool" where
  "validate_password_strength_spec p \<longleftrightarrow>
     length p \<ge> 8
     \<and> list_ex (\<lambda>c. c \<in> set ''ABCDEFGHIJKLMNOPQRSTUVWXYZ'') p
     \<and> list_ex (\<lambda>c. c \<in> set ''abcdefghijklmnopqrstuvwxyz'') p
     \<and> list_ex (\<lambda>c. c \<in> set ''0123456789'') p"

text \<open>
  An \<^verbatim>\<open>auth_service\<close> with that strength check; its other functions stay parameters.
\<close>

abbreviation with_strength_check :: "auth_service \<Rightarrow> auth_service" where
  "with_strength_check svc \<equiv>
     svc\<lparr>validate_password_strength := validate_password_strength_spec\<rparr>"

section \<open>The permission table (\<^verbatim>\<open>app/core/permissions.py\<close>)\<close>

definition ROLE_PERMISSIONS :: "(string \<times> string list) list" where
  "ROLE_PERMISSIONS =
     [(role_value VIEWER, [''dashboard:read'']),
      (role_value ANALYST, [''dashboard:read'', ''analytics:read'']),
      (role_value MANAGER, [''dashboard:read'', ''analytics:read'', ''reports:export'']),
      (role_value ADMIN,
         [''dashboard:read'', ''analytics:read'', ''reports:export'', ''users:manage''])]"

text \<open>\<^verbatim>\<open>cls.ROLE_PERMISSIONS.get(user_role, [])\<close>\<close>

definition permissionsOf :: "string \<Rightarrow> string list" where
  "permissionsOf user_role =
     (case map_of ROLE_PERMISSIONS user_role of None \<Rightarrow> [] | Some ps \<Rightarrow> ps)"

text \<open>\<^verbatim>\<open>PermissionService.check_permission\<close>\<close>

definition PermissionService_check_permission :: "string \<Rightarrow> string \<Rightarrow> bool" where
  "PermissionService_check_permission user_role required_permission =
     (let user_permissions = permissionsOf user_role
      in required_permission \<in> set user_permissions)"

text \<open>\<^verbatim>\<open>PermissionService.require_permission\<close>\<close>

definition require_permission :: "string \<Rightarrow> string \<Rightarrow> http_error + unit" where
  "require_permission user_role required_permission =
     (if \<not> PermissionService_check_permission user_role required_permission
      then Inl (HTTPException HTTP_403_FORBIDDEN
                  (''Insufficient permissions. Required: '' @ required_permission))
      else Inr ())"

section \<open>The rank check of \<^verbatim>\<open>Backend.py\<close>\<close>

definition role_hierarchy :: "(string \<times> nat) list" where
  "role_hierarchy =
     [(role_value VIEWER, 1), (role_value ANALYST, 2),
      (role_value MANAGER, 3), (role_value ADMIN, 4)]"

text \<open>\<^verbatim>\<open>role_hierarchy.get(k, 0)\<close>\<close>

definition rank :: "string \<Rightarrow> nat" where
  "rank k = (case map_of role_hierarchy k of None \<Rightarrow> 0 | Some n \<Rightarrow> n)"

text \<open>\<^verbatim>\<open>check_permission(user, required_role)\<close> of \<^verbatim>\<open>Backend.py\<close>\<close>

definition Backend_check_permission :: "User \<Rightarrow> UserRole \<Rightarrow> http_error + unit" where
  "Backend_check_permission usr required_role =
     (let user_level = rank (role_value (role usr));
          required_level = rank (role_value required_role)
      in if user_level < required_level
         then Inl (HTTPException HTTP_403_FORBIDDEN ''Insufficient permissions'')
         else Inr ())"

section \<open>The monolithic application (\<^verbatim>\<open>Backend.py\<close>)\<close>

definition SECRET_KEY :: string where
  "SECRET_KEY = ''your-secret-key-change-in-production''"

definition ACCESS_TOKEN_EXPIRE_MINUTES :: int where
  "ACCESS_TOKEN_EXPIRE_MINUTES = 30"

text \<open>
  \<^verbatim>\<open>pwd_context\<close> is the password-hashing library: a parameter. Its \<^verbatim>\<open>hash\<close> salts at
  random; the function stands for the digests it returns during the request at hand.
\<close>

record pwd_context =
  pwd_context_hash :: "string \<Rightarrow> string"
  pwd_context_verify :: "string \<Rightarrow> string \<Rightarrow> bool"

definition Backend_verify_password :: "pwd_context \<Rightarrow> string \<Rightarrow> string \<Rightarrow> bool" where
  "Backend_verify_password ctx plain_password hashed = pwd_context_verify ctx plain_password hashed"

definition Backend_get_password_hash :: "pwd_context \<Rightarrow> string \<Rightarrow> string" where
  "Backend_get_password_hash ctx pw = pwd_context_hash ctx pw"

text \<open>
  \<^verbatim>\<open>create_access_token(data)\<close>; \<open>now\<close> is the \<^verbatim>\<open>datetime.utcnow()\<close> of the call and
  \<open>expire_minutes\<close> the configured time to live, \<^const>\<open>ACCESS_TOKEN_EXPIRE_MINUTES\<close> in
  every call of the source.
\<close>

definition Backend_create_access_token :: "int \<Rightarrow> payload \<Rightarrow> int \<Rightarrow> jwt" where
  "Backend_create_access_token expire_minutes data now =
     (let expire = now + 60 * expire_minutes;
          to_encode = data(''exp'' \<mapsto> IntDate expire)
      in jwt_encode to_encode SECRET_KEY)"

definition Backend_authenticate_user ::
    "pwd_context \<Rightarrow> users_db \<Rightarrow> string \<Rightarrow> string \<Rightarrow> User option" where
  "Backend_authenticate_user ctx fake_users_db e pw =
     (case map_of fake_users_db e of
        None \<Rightarrow> None
      | Some usr \<Rightarrow>
          if \<not> Backend_verify_password ctx pw (hashed_password usr) then None
          else Some usr)"

definition credentials_exception :: http_error where
  "credentials_exception =
     HTTPException HTTP_401_UNAUTHORIZED ''Could not validate credentials''"

text \<open>
  \<^verbatim>\<open>get_current_user\<close>: every error of the decoder is caught as \<^verbatim>\<open>JWTError\<close> and raised
  again as the one 401. The store is read and returned as it was.
\<close>

definition Backend_get_current_user ::
    "int \<Rightarrow> jwt \<Rightarrow> users_db \<Rightarrow> (http_error + User) \<times> users_db" where
  "Backend_get_current_user now credentials fake_users_db =
     (case jwt_decode credentials SECRET_KEY now of
        Inl _ \<Rightarrow> (Inl credentials_exception, fake_users_db)
      | Inr payload \<Rightarrow>
          (case payload ''sub'' of
             Some (Str e) \<Rightarrow>
               (case map_of fake_users_db e of
                  None \<Rightarrow> (Inl credentials_exception, fake_users_db)
                | Some usr \<Rightarrow> (Inr usr, fake_users_db))
           | _ \<Rightarrow> (Inl credentials_exception, fake_users_db)))"

text \<open>\<^verbatim>\<open>register\<close> of \<^verbatim>\<open>Backend.py\<close>\<close>

definition Backend_register ::
    "pwd_context \<Rightarrow> int \<Rightarrow> UserCreate \<Rightarrow> users_db \<Rightarrow> (http_error + Token) \<times> users_db" where
  "Backend_register ctx now user_data fake_users_db =
     (if map_of fake_users_db (email user_data) \<noteq> None
      then (Inl (HTTPException HTTP_400_BAD_REQUEST ''Email already registered''),
            fake_users_db)
      else
        let hashed = Backend_get_password_hash ctx (password user_data);
            new_user = \<lparr>email = email user_data, full_name = full_name user_data,
                        role = role user_data, id = length fake_users_db + 1,
                        is_active = True, created_at = now, last_login = None,
                        hashed_password = hashed\<rparr>;
            db' = AList.update (email user_data) new_user fake_users_db;
            tok = Backend_create_access_token ACCESS_TOKEN_EXPIRE_MINUTES
                    [''sub'' \<mapsto> Str (email user_data)] now
        in (Inr \<lparr>access_token = tok, token_type = ''bearer'',
                  user = UserResponse.truncate new_user\<rparr>, db'))"

text \<open>\<^verbatim>\<open>login\<close> of \<^verbatim>\<open>Backend.py\<close>\<close>

definition Backend_login ::
    "pwd_context \<Rightarrow> int \<Rightarrow> UserLogin \<Rightarrow> users_db \<Rightarrow> (http_error + Token) \<times> users_db" where
  "Backend_login ctx now user_credentials fake_users_db =
     (case Backend_authenticate_user ctx fake_users_db
             (login_email user_credentials) (login_password user_credentials) of
        None \<Rightarrow>
          (Inl (HTTPException HTTP_401_UNAUTHORIZED ''Incorrect email or password''),
           fake_users_db)
      | Some u \<Rightarrow>
          let tok = Backend_create_access_token ACCESS_TOKEN_EXPIRE_MINUTES
                      [''sub'' \<mapsto> Str (login_email user_credentials)] now
          in (Inr \<lparr>access_token = tok, token_type = ''bearer'',
                    user = UserResponse.truncate u\<rparr>, fake_users_db))"

text \<open>
  \<^verbatim>\<open>@app.post("/api/v1/auth/register")\<close>: the framework builds the \<^verbatim>\<open>UserCreate\<close> of the
  body, checks it, and only then calls \<^verbatim>\<open>register\<close>.
\<close>

definition Backend_post_register ::
    "(string \<Rightarrow> bool) \<Rightarrow> pwd_context \<Rightarrow> int \<Rightarrow> string \<Rightarrow> string \<Rightarrow> string \<Rightarrow> UserRole option
       \<Rightarrow> users_db \<Rightarrow> (validation_error + http_error + Token) \<times> users_db" where
  "Backend_post_register email_ok ctx now e pw fn r fake_users_db =
     (let user_data = UserCreate_of_request e pw fn r
      in if \<not> Backend_UserCreate_valid email_ok user_data
         then (Inl RequestValidationError, fake_users_db)
         else (case Backend_register ctx now user_data fake_users_db of
                 (res, db') \<Rightarrow> (Inr res, db')))"

text \<open>
  The protected operations of \<^verbatim>\<open>Backend.py\<close>. Each one is given the result of its
  dependency \<^verbatim>\<open>get_current_user\<close>; what it returns once the check has passed (generated at
  random, or built from the request) is the parameter \<open>body\<close>.
\<close>

definition Backend_get_dashboard_data :: "(User \<Rightarrow> 'a) \<Rightarrow> User \<Rightarrow> http_error + 'a" where
  "Backend_get_dashboard_data body current_user = Inr (body current_user)"

definition Backend_get_detailed_analytics :: "(User \<Rightarrow> 'a) \<Rightarrow> User \<Rightarrow> http_error + 'a" where
  "Backend_get_detailed_analytics body current_user =
     (case Backend_check_permission current_user ANALYST of
        Inl e \<Rightarrow> Inl e
      | Inr _ \<Rightarrow> Inr (body current_user))"

definition Backend_export_report :: "(User \<Rightarrow> 'a) \<Rightarrow> User \<Rightarrow> http_error + 'a" where
  "Backend_export_report body current_user =
     (case Backend_check_permission current_user MANAGER of
        Inl e \<Rightarrow> Inl e
      | Inr _ \<Rightarrow> Inr (body current_user))"

definition Backend_get_users :: "(User \<Rightarrow> 'a) \<Rightarrow> User \<Rightarrow> http_error + 'a" where
  "Backend_get_users body current_user =
     (case Backend_check_permission current_user ADMIN of
        Inl e \<Rightarrow> Inl e
      | Inr _ \<Rightarrow> Inr (body current_user))"

text \<open>
  \<^verbatim>\<open>Depends(get_current_user)\<close>: the framework runs the dependency first and calls the
  operation only with the user it returned; an error of the dependency is the response.
\<close>

definition Depends ::
    "(http_error + User) \<times> users_db \<Rightarrow> (User \<Rightarrow> http_error + 'a) \<Rightarrow> (http_error + 'a) \<times> users_db" where
  "Depends dependency operation =
     (case dependency of
        (Inl e, db) \<Rightarrow> (Inl e, db)
      | (Inr current_user, db) \<Rightarrow> (operation current_user, db))"

section \<open>The modular tree\<close>

subsection \<open>\<^verbatim>\<open>DatabaseService\<close> (\<^verbatim>\<open>app/core/database.py\<close>)\<close>

text \<open>Each method takes the \<^verbatim>\<open>users_db\<close> of the service and returns it with its result.\<close>

definition get_user_by_email :: "string option \<Rightarrow> users_db \<Rightarrow> User option \<times> users_db" where
  "get_user_by_email e users =
     (case e of None \<Rightarrow> (None, users) | Some k \<Rightarrow> (map_of users k, users))"

datatype value_error = ValueError string

definition create_user ::
    "auth_service \<Rightarrow> int \<Rightarrow> UserCreate \<Rightarrow> users_db \<Rightarrow> (value_error + User) \<times> users_db" where
  "create_user svc now user_data users =
     (if map_of users (email user_data) \<noteq> None
      then (Inl (ValueError ''Email already registered''), users)
      else
        let user_id = length users + 1;
            new_user = \<lparr>email = email user_data, full_name = full_name user_data,
                        role = role user_data, id = user_id, is_active = True,
                        created_at = now, last_login = None,
                        hashed_password = get_password_hash svc (password user_data)\<rparr>
        in (Inr new_user, AList.update (email user_data) new_user users))"

definition update_last_login :: "int \<Rightarrow> string \<Rightarrow> users_db \<Rightarrow> users_db" where
  "update_last_login now e users =
     (case map_of users e of
        None \<Rightarrow> users
      | Some u \<Rightarrow> AList.update e (u\<lparr>last_login := Some now\<rparr>) users)"

subsection \<open>The dependencies (\<^verbatim>\<open>app/api/deps.py\<close>)\<close>

text \<open>
  \<^verbatim>\<open>payload.get("sub")\<close> is the key of the lookup; a payload with no string there finds no
  user.
\<close>

definition payload_sub :: "payload \<Rightarrow> string option" where
  "payload_sub p = (case p ''sub'' of Some (Str e) \<Rightarrow> Some e | _ \<Rightarrow> None)"

definition get_current_user ::
    "auth_service \<Rightarrow> jwt \<Rightarrow> users_db \<Rightarrow> (http_error + User) \<times> users_db" where
  "get_current_user svc credentials users =
     (case verify_token svc credentials of
        Inl e \<Rightarrow> (Inl e, users)
      | Inr p \<Rightarrow>
          (case get_user_by_email (payload_sub p) users of
             (None, users') \<Rightarrow>
               (Inl (HTTPException HTTP_401_UNAUTHORIZED ''User not found or inactive''),
                users')
           | (Some u, users') \<Rightarrow>
               if \<not> is_active u
               then (Inl (HTTPException HTTP_401_UNAUTHORIZED
                            ''User not found or inactive''), users')
               else (Inr u, users')))"

definition get_current_active_user ::
    "auth_service \<Rightarrow> jwt \<Rightarrow> users_db \<Rightarrow> (http_error + User) \<times> users_db" where
  "get_current_active_user svc credentials users =
     Depends (get_current_user svc credentials users)
       (\<lambda>current_user.
          if \<not> is_active current_user
          then Inl (HTTPException HTTP_400_BAD_REQUEST ''Inactive user'')
          else Inr current_user)"

subsection \<open>Registration and login (\<^verbatim>\<open>app/api/v1/endpoints/auth.py\<close>)\<close>

definition weak_password_exception :: http_error where
  "weak_password_exception =
     HTTPException HTTP_400_BAD_REQUEST
       ''Password must be at least 8 characters with uppercase, lowercase, and number''"

definition register_user ::
    "auth_service \<Rightarrow> int \<Rightarrow> UserCreate \<Rightarrow> users_db \<Rightarrow> (http_error + Token) \<times> users_db" where
  "register_user svc now user_data users =
     (if \<not> validate_password_strength svc (password user_data)
      then (Inl weak_password_exception, users)
      else
        (case create_user svc now user_data users of
           (Inl (ValueError msg), users') \<Rightarrow>
             (Inl (HTTPException HTTP_400_BAD_REQUEST msg), users')
         | (Inr new_user, users') \<Rightarrow>
             let tok = create_access_token svc [''sub'' \<mapsto> Str (email new_user)]
             in (Inr \<lparr>access_token = tok, token_type = ''bearer'',
                       user = UserResponse.truncate new_user\<rparr>, users')))"

text \<open>
  \<^verbatim>\<open>@router.post("/register")\<close>: the framework builds the \<^verbatim>\<open>UserCreate\<close> of the body,
  checks it, and only then calls \<^verbatim>\<open>register_user\<close>.
\<close>

definition post_register ::
    "(string \<Rightarrow> bool) \<Rightarrow> auth_service \<Rightarrow> int \<Rightarrow> string \<Rightarrow> string \<Rightarrow> string \<Rightarrow> UserRole option
       \<Rightarrow> users_db \<Rightarrow> (validation_error + http_error + Token) \<times> users_db" where
  "post_register email_ok svc now e pw fn r users =
     (let user_data = UserCreate_of_request e pw fn r
      in if \<not> UserCreate_valid email_ok user_data
         then (Inl RequestValidationError, users)
         else (case register_user svc now user_data users of
                 (res, users') \<Rightarrow> (Inr res, users')))"

text \<open>
  \<^verbatim>\<open>login_user\<close>. The \<^verbatim>\<open>user\<close> of the source is the dictionary held by the store, so the
  response built after \<^verbatim>\<open>update_last_login\<close> shows the new \<^verbatim>\<open>last_login\<close>.
\<close>

definition login_user ::
    "auth_service \<Rightarrow> int \<Rightarrow> UserLogin \<Rightarrow> users_db \<Rightarrow> (http_error + Token) \<times> users_db" where
  "login_user svc now credentials users =
     (case get_user_by_email (Some (login_email credentials)) users of
        (None, users') \<Rightarrow>
          (Inl (HTTPException HTTP_401_UNAUTHORIZED ''Invalid email or password''), users')
      | (Some u, users') \<Rightarrow>
          if \<not> verify_password svc (login_password credentials) (hashed_password u)
          then (Inl (HTTPException HTTP_401_UNAUTHORIZED ''Invalid email or password''),
                users')
          else if \<not> is_active u
          then (Inl (HTTPException HTTP_400_BAD_REQUEST ''Inactive user account''), users')
          else
            let users'' = update_last_login now (login_email credentials) users';
                u' = u\<lparr>last_login := Some now\<rparr>;
                tok = create_access_token svc [''sub'' \<mapsto> Str (email u')]
            in (Inr \<lparr>access_token = tok, token_type = ''bearer'',
                      user = UserResponse.truncate u'\<rparr>, users''))"

definition get_current_user_info :: "User \<Rightarrow> http_error + UserResponse" where
  "get_current_user_info current_user = Inr (UserResponse.truncate current_user)"

subsection \<open>The protected operations (\<^verbatim>\<open>dashboard.py\<close>, \<^verbatim>\<open>analytics.py\<close>)\<close>

text \<open>
  Each operation is given the result of its dependency \<^verbatim>\<open>get_current_active_user\<close>. The
  analytics provider (random fixtures) is the parameter \<open>analytics\<close>, asked with the value
  of the role.
\<close>

definition get_dashboard_data :: "(string \<Rightarrow> 'a) \<Rightarrow> User \<Rightarrow> http_error + 'a" where
  "get_dashboard_data analytics current_user =
     (case require_permission (role_value (role current_user)) ''dashboard:read'' of
        Inl e \<Rightarrow> Inl e
      | Inr _ \<Rightarrow> Inr (analytics (role_value (role current_user))))"

definition get_detailed_analytics :: "(string \<Rightarrow> 'a) \<Rightarrow> User \<Rightarrow> http_error + 'a" where
  "get_detailed_analytics analytics current_user =
     (case require_permission (role_value (role current_user)) ''analytics:read'' of
        Inl e \<Rightarrow> Inl e
      | Inr _ \<Rightarrow> Inr (analytics (role_value (role current_user))))"

record ReportRequest =
  report_type :: string
  date_range :: "(string \<times> string) list"
  format :: string

text \<open>The dictionary that \<^verbatim>\<open>export_report\<close> returns, without its two constant data rows.\<close>

record Report =
  message :: string
  report_report_type :: string
  report_format :: string
  generated_by :: string

definition export_report :: "ReportRequest \<Rightarrow> User \<Rightarrow> http_error + Report" where
  "export_report report_request current_user =
     (case require_permission (role_value (role current_user)) ''reports:export'' of
        Inl e \<Rightarrow> Inl e
      | Inr _ \<Rightarrow>
          Inr \<lparr>message = ''Report generated successfully'',
                report_report_type = report_type report_request,
                report_format = format report_request,
                generated_by = full_name current_user\<rparr>)"

section \<open>Fixtures\<close>

text \<open>
  Concrete collaborators, for evaluating the operations at concrete inputs: digests that
  are the plaintext behind a marker, an address check that asks for an \<^verbatim>\<open>@\<close>, and an \<^verbatim>\<open>auth_service\<close> whose tokens are those of the
  codec above, whose verification demands a subject claim (section 4.2 of the
  specification), and whose strength check is the predicate of section 4.4.
\<close>

definition demo_pwd_context :: pwd_context where
  "demo_pwd_context =
     \<lparr>pwd_context_hash = (\<lambda>p. ''$2b$'' @ p),
      pwd_context_verify = (\<lambda>p h. h = ''$2b$'' @ p)\<rparr>"

definition demo_verify_token :: "int \<Rightarrow> jwt \<Rightarrow> http_error + payload" where
  "demo_verify_token now tok =
     (case jwt_decode tok SECRET_KEY now of
        Inl _ \<Rightarrow> Inl credentials_exception
      | Inr p \<Rightarrow> (case p ''sub'' of None \<Rightarrow> Inl credentials_exception | Some _ \<Rightarrow> Inr p))"

definition demo_auth_service :: "int \<Rightarrow> auth_service" where
  "demo_auth_service now =
     \<lparr>verify_token = demo_verify_token now,
      create_access_token =
        (\<lambda>data. Backend_create_access_token ACCESS_TOKEN_EXPIRE_MINUTES data now),
      get_password_hash = pwd_context_hash demo_pwd_context,
      verify_password = pwd_context_verify demo_pwd_context,
      validate_password_strength = validate_password_strength_spec\<rparr>"

definition demo_email_ok :: "string \<Rightarrow> bool" where
  "demo_email_ok e \<longleftrightarrow> CHR ''@'' \<in> set e"

definition demo_user :: "string \<Rightarrow> UserRole \<Rightarrow> bool \<Rightarrow> User" where
  "demo_user e r active =
     \<lparr>email = e, full_name = ''Demo User'', role = r, id = 1, is_active = active,
      created_at = 0, last_login = None, hashed_password = ''$2b$secret''\<rparr>"

definition demo_token :: "string \<Rightarrow> jwt" where
  "demo_token e =
     Backend_create_access_token ACCESS_TOKEN_EXPIRE_MINUTES [''sub'' \<mapsto> Str e] 0"

lemmas demo_defs =
  demo_pwd_context_def demo_verify_token_def demo_auth_service_def demo_user_def
  demo_token_def Backend_create_access_token_def jwt_encode_def jwt_decode_def
  SECRET_KEY_def ACCESS_TOKEN_EXPIRE_MINUTES_def credentials_exception_def payload_sub_def

lemmas status_defs = HTTP_400_BAD_REQUEST_def HTTP_401_UNAUTHORIZED_def HTTP_403_FORBIDDEN_def

section \<open>The permission table and the rank\<close>

lemma range_role_value: "range role_value = {''admin'', ''manager'', ''analyst'', ''viewer''}"
proof -
  have "(UNIV :: UserRole set) = {ADMIN, MANAGER, ANALYST, VIEWER}"
    using UserRole.exhaust by auto
  then have "range role_value = role_value ` {ADMIN, MANAGER, ANALYST, VIEWER}"
    by simp
  then show ?thesis
    by simp
qed

lemma permissionsOf_unknown:
  assumes "k \<notin> range role_value"
  shows "permissionsOf k = []"
proof -
  have "k \<noteq> role_value r" for r
    using assms by blast
  from this [of VIEWER] this [of ANALYST] this [of MANAGER] this [of ADMIN]
  show ?thesis
    by (simp add: permissionsOf_def ROLE_PERMISSIONS_def)
qed

text \<open>
  Claim C1. For each of the four roles the granted permissions are exactly those of the
  fixed table; the lookup is total, and a key that is the value of none of the four roles
  is granted nothing (the default of \<^verbatim>\<open>get\<close>, not an error); the membership test holds
  exactly for the members of the granted set.
\<close>

theorem C1_permission_table:
  "set (permissionsOf (role_value VIEWER)) = {''dashboard:read''}
   \<and> set (permissionsOf (role_value ANALYST)) = {''dashboard:read'', ''analytics:read''}
   \<and> set (permissionsOf (role_value MANAGER)) =
       {''dashboard:read'', ''analytics:read'', ''reports:export''}
   \<and> set (permissionsOf (role_value ADMIN)) =
       {''dashboard:read'', ''analytics:read'', ''reports:export'', ''users:manage''}
   \<and> (k \<notin> range role_value \<longrightarrow> permissionsOf k = [])
   \<and> (PermissionService_check_permission k' p \<longleftrightarrow> p \<in> set (permissionsOf k'))"
proof (intro conjI impI)
  show "permissionsOf k = []" if "k \<notin> range role_value"
    using that by (rule permissionsOf_unknown)
qed (simp_all add: permissionsOf_def ROLE_PERMISSIONS_def
       PermissionService_check_permission_def)

theorem C1_permission_table_witness:
  "''guest'' \<notin> range role_value \<and> permissionsOf ''guest'' = []
   \<and> PermissionService_check_permission ''manager'' ''reports:export''
   \<and> \<not> PermissionService_check_permission ''manager'' ''users:manage''"
  using C1_permission_table [of "''guest''" "''manager''" "''reports:export''"]
    C1_permission_table [of "''guest''" "''manager''" "''users:manage''"]
  by (simp add: range_role_value)

text \<open>
  Claim C10. On every role the rank comparison of \<^verbatim>\<open>Backend.py\<close> and the permission table
  of the modular tree agree: rank at least analyst, manager, admin exactly when the table
  grants \<^verbatim>\<open>analytics:read\<close>, \<^verbatim>\<open>reports:export\<close>, \<^verbatim>\<open>users:manage\<close>; every role has rank at
  least viewer and is granted \<^verbatim>\<open>dashboard:read\<close>. Hence the protected operations of the two
  trees reject the same users.
\<close>

theorem C10_rank_agrees_with_table:
  "(rank (role_value r) \<ge> rank (role_value ANALYST)
      \<longleftrightarrow> PermissionService_check_permission (role_value r) ''analytics:read'')
   \<and> (rank (role_value r) \<ge> rank (role_value MANAGER)
      \<longleftrightarrow> PermissionService_check_permission (role_value r) ''reports:export'')
   \<and> (rank (role_value r) \<ge> rank (role_value ADMIN)
      \<longleftrightarrow> PermissionService_check_permission (role_value r) ''users:manage'')
   \<and> rank (role_value r) \<ge> rank (role_value VIEWER)
   \<and> PermissionService_check_permission (role_value r) ''dashboard:read''
   \<and> isl (Backend_get_dashboard_data body u) = isl (get_dashboard_data analytics u)
   \<and> isl (Backend_get_detailed_analytics body u) = isl (get_detailed_analytics analytics u)
   \<and> isl (Backend_export_report body' u) = isl (export_report report_request u)
   \<and> isl (Backend_get_users body'' u)
       = isl (require_permission (role_value (role u)) ''users:manage'')"
proof -
  have ranks: "(rank (role_value r) \<ge> rank (role_value ANALYST)
      \<longleftrightarrow> PermissionService_check_permission (role_value r) ''analytics:read'')
   \<and> (rank (role_value r) \<ge> rank (role_value MANAGER)
      \<longleftrightarrow> PermissionService_check_permission (role_value r) ''reports:export'')
   \<and> (rank (role_value r) \<ge> rank (role_value ADMIN)
      \<longleftrightarrow> PermissionService_check_permission (role_value r) ''users:manage'')
   \<and> rank (role_value r) \<ge> rank (role_value VIEWER)
   \<and> PermissionService_check_permission (role_value r) ''dashboard:read''"
    by (cases r)
      (simp_all add: rank_def role_hierarchy_def permissionsOf_def ROLE_PERMISSIONS_def
         PermissionService_check_permission_def)
  have gates: "isl (Backend_get_dashboard_data body u) = isl (get_dashboard_data analytics u)
   \<and> isl (Backend_get_detailed_analytics body u) = isl (get_detailed_analytics analytics u)
   \<and> isl (Backend_export_report body' u) = isl (export_report report_request u)
   \<and> isl (Backend_get_users body'' u)
       = isl (require_permission (role_value (role u)) ''users:manage'')"
    by (cases "role u")
      (simp_all add: rank_def role_hierarchy_def permissionsOf_def ROLE_PERMISSIONS_def
         PermissionService_check_permission_def require_permission_def
         Backend_check_permission_def Backend_get_dashboard_data_def
         Backend_get_detailed_analytics_def Backend_export_report_def
         Backend_get_users_def get_dashboard_data_def get_detailed_analytics_def
         export_report_def)
  from ranks gates show ?thesis
    by blast
qed

theorem C10_rank_agrees_with_table_witness:
  "rank (role_value ANALYST) < rank (role_value MANAGER)
   \<and> \<not> PermissionService_check_permission (role_value ANALYST) ''reports:export''
   \<and> isl (Backend_export_report full_name (demo_user ''a@example.com'' ANALYST True))
   \<and> isl (export_report \<lparr>report_type = ''sales'', date_range = [], format = ''json''\<rparr>
            (demo_user ''a@example.com'' ANALYST True))"
  using C10_rank_agrees_with_table [of ANALYST full_name
      "demo_user ''a@example.com'' ANALYST True" rank full_name
      "\<lparr>report_type = ''sales'', date_range = [], format = ''json''\<rparr>" full_name]
  by (simp add: rank_def role_hierarchy_def permissionsOf_def ROLE_PERMISSIONS_def
        PermissionService_check_permission_def require_permission_def
        Backend_check_permission_def Backend_export_report_def export_report_def
        demo_user_def)

section \<open>The gate in front of the operations\<close>

lemma get_current_user_resolved:
  assumes "verify_token svc tok = Inr p" "payload_sub p = Some e" "map_of users e = Some u"
  shows "get_current_user svc tok users =
           (if is_active u then Inr u
            else Inl (HTTPException HTTP_401_UNAUTHORIZED ''User not found or inactive''),
            users)"
  using assms by (simp add: get_current_user_def get_user_by_email_def)

lemma get_current_active_user_resolved:
  assumes "verify_token svc tok = Inr p" "payload_sub p = Some e" "map_of users e = Some u"
  shows "get_current_active_user svc tok users =
           (if is_active u then Inr u
            else Inl (HTTPException HTTP_401_UNAUTHORIZED ''User not found or inactive''),
            users)"
  using assms
  by (simp add: get_current_active_user_def Depends_def get_current_user_resolved)

lemma Backend_get_current_user_resolved:
  assumes "jwt_decode tok SECRET_KEY now = Inr p" "payload_sub p = Some e"
    "map_of db e = Some u"
  shows "Backend_get_current_user now tok db = (Inr u, db)"
  using assms
  by (auto simp add: Backend_get_current_user_def payload_sub_def
        split: option.splits claim_value.splits)

text \<open>
  Claim C2. A request authenticated as a user with role viewer that asks for the report
  export is answered with the 403 of the permission check, and the operation's result is
  never built; authenticated as a manager, the check passes and the operation returns its
  report. This holds in the modular tree (permission \<^verbatim>\<open>reports:export\<close>) and in
  \<^verbatim>\<open>Backend.py\<close> (rank of manager).
\<close>

theorem C2_export_needs_manager:
  assumes "verify_token svc tok = Inr p" "payload_sub p = Some e"
    and "map_of users e = Some u" "is_active u"
    and "jwt_decode tok' SECRET_KEY now = Inr p'" "payload_sub p' = Some e'"
    and "map_of db e' = Some u'"
  shows "(role u = VIEWER \<longrightarrow>
            Depends (get_current_active_user svc tok users) (export_report report_request) =
              (Inl (HTTPException HTTP_403_FORBIDDEN
                      ''Insufficient permissions. Required: reports:export''), users))
       \<and> (role u = MANAGER \<longrightarrow>
            Depends (get_current_active_user svc tok users) (export_report report_request) =
              (Inr \<lparr>message = ''Report generated successfully'',
                    report_report_type = report_type report_request,
                    report_format = format report_request,
                    generated_by = full_name u\<rparr>, users))
       \<and> (role u' = VIEWER \<longrightarrow>
            Depends (Backend_get_current_user now tok' db) (Backend_export_report body) =
              (Inl (HTTPException HTTP_403_FORBIDDEN ''Insufficient permissions''), db))
       \<and> (role u' = MANAGER \<longrightarrow>
            Depends (Backend_get_current_user now tok' db) (Backend_export_report body) =
              (Inr (body u'), db))"
proof -
  have gate: "get_current_active_user svc tok users = (Inr u, users)"
    using assms(1-4) by (simp add: get_current_active_user_resolved)
  have gate': "Backend_get_current_user now tok' db = (Inr u', db)"
    using assms(5-7) by (rule Backend_get_current_user_resolved)
  show ?thesis
    by (simp add: gate gate' Depends_def export_report_def require_permission_def
          PermissionService_check_permission_def permissionsOf_def ROLE_PERMISSIONS_def
          Backend_export_report_def Backend_check_permission_def rank_def
          role_hierarchy_def)
qed

lemma demo_token_decodes:
  "jwt_decode (demo_token e) SECRET_KEY 60 = Inr [''sub'' \<mapsto> Str e, ''exp'' \<mapsto> IntDate 1800]"
  by (simp add: demo_defs)

lemma demo_token_verifies:
  "verify_token (demo_auth_service 60) (demo_token e)
     = Inr [''sub'' \<mapsto> Str e, ''exp'' \<mapsto> IntDate 1800]"
  by (simp add: demo_auth_service_def demo_verify_token_def demo_token_decodes)

theorem C2_export_needs_manager_witness:
  "Depends (get_current_active_user (demo_auth_service 60) (demo_token ''v@example.com'')
              [(''v@example.com'', demo_user ''v@example.com'' VIEWER True)])
     (export_report \<lparr>report_type = ''sales'', date_range = [], format = ''json''\<rparr>)
   = (Inl (HTTPException HTTP_403_FORBIDDEN
             ''Insufficient permissions. Required: reports:export''),
      [(''v@example.com'', demo_user ''v@example.com'' VIEWER True)])
   \<and> Depends (Backend_get_current_user 60 (demo_token ''m@example.com'')
                [(''m@example.com'', demo_user ''m@example.com'' MANAGER True)])
       (Backend_export_report full_name)
     = (Inr ''Demo User'', [(''m@example.com'', demo_user ''m@example.com'' MANAGER True)])"
proof -
  let ?v = "demo_user ''v@example.com'' VIEWER True"
  let ?m = "demo_user ''m@example.com'' MANAGER True"
  have 1: "verify_token (demo_auth_service 60) (demo_token ''v@example.com'')
             = Inr [''sub'' \<mapsto> Str ''v@example.com'', ''exp'' \<mapsto> IntDate 1800]"
    by (rule demo_token_verifies)
  have 2: "payload_sub [''sub'' \<mapsto> Str ''v@example.com'', ''exp'' \<mapsto> IntDate 1800]
             = Some ''v@example.com''"
    by (simp add: payload_sub_def)
  have 3: "map_of [(''v@example.com'', ?v)] ''v@example.com'' = Some ?v"
    by simp
  have 4: "is_active ?v"
    by (simp add: demo_user_def)
  have 5: "jwt_decode (demo_token ''m@example.com'') SECRET_KEY 60
             = Inr [''sub'' \<mapsto> Str ''m@example.com'', ''exp'' \<mapsto> IntDate 1800]"
    by (rule demo_token_decodes)
  have 6: "payload_sub [''sub'' \<mapsto> Str ''m@example.com'', ''exp'' \<mapsto> IntDate 1800]
             = Some ''m@example.com''"
    by (simp add: payload_sub_def)
  have 7: "map_of [(''m@example.com'', ?m)] ''m@example.com'' = Some ?m"
    by simp
  from C2_export_needs_manager [OF 1 2 3 4 5 6 7, of _ full_name]
  show ?thesis
    by (simp add: demo_user_def)
qed

section \<open>Disabled accounts\<close>

text \<open>
  In \<^verbatim>\<open>deps.py\<close> the check of \<^verbatim>\<open>get_current_active_user\<close> never fires: whatever
  \<^verbatim>\<open>get_current_user\<close> returns is active, so its 400 \<^verbatim>\<open>Inactive user\<close> is dead code.
\<close>

lemma get_current_active_user_dead_check:
  "get_current_active_user svc tok users = get_current_user svc tok users"
  by (simp add: get_current_active_user_def Depends_def get_current_user_def
        get_user_by_email_def split: sum.splits option.splits)

text \<open>
  Claim C3. A user whose \<^verbatim>\<open>is_active\<close> is false must fail as a disabled account on login
  and on every operation behind the gate, with no other kind of error, and the operation
  must not run. The code misses this, evaluated here on a store that holds one inactive
  administrator, with the right password and with a token that verifies. In the modular
  tree the login answers with its 400 \<^verbatim>\<open>Inactive user account\<close>, but the gate answers with
  the 401 \<^verbatim>\<open>User not found or inactive\<close>, the error it gives on a store that does not
  hold the subject. In \<^verbatim>\<open>Backend.py\<close> nothing reads \<^verbatim>\<open>is_active\<close>: the login returns a
  token, and the gate lets the user through to the list of users.
\<close>

theorem C3_inactive_account_code:
  "\<not> is_active (demo_user ''d@example.com'' ADMIN False)
   \<and> login_user (demo_auth_service 60) 60
        \<lparr>login_email = ''d@example.com'', login_password = ''secret''\<rparr>
        [(''d@example.com'', demo_user ''d@example.com'' ADMIN False)]
       = (Inl (HTTPException HTTP_400_BAD_REQUEST ''Inactive user account''),
          [(''d@example.com'', demo_user ''d@example.com'' ADMIN False)])
   \<and> Depends (get_current_active_user (demo_auth_service 60) (demo_token ''d@example.com'')
                [(''d@example.com'', demo_user ''d@example.com'' ADMIN False)])
        get_current_user_info
       = (Inl (HTTPException HTTP_401_UNAUTHORIZED ''User not found or inactive''),
          [(''d@example.com'', demo_user ''d@example.com'' ADMIN False)])
   \<and> Depends (get_current_active_user (demo_auth_service 60) (demo_token ''d@example.com'')
                [])
        get_current_user_info
       = (Inl (HTTPException HTTP_401_UNAUTHORIZED ''User not found or inactive''), [])
   \<and> \<not> isl (fst (Backend_login demo_pwd_context 60
                   \<lparr>login_email = ''d@example.com'', login_password = ''secret''\<rparr>
                   [(''d@example.com'', demo_user ''d@example.com'' ADMIN False)]))
   \<and> Depends (Backend_get_current_user 60 (demo_token ''d@example.com'')
                [(''d@example.com'', demo_user ''d@example.com'' ADMIN False)])
        (Backend_get_users full_name)
       = (Inr ''Demo User'', [(''d@example.com'', demo_user ''d@example.com'' ADMIN False)])"
  by (simp add: login_user_def get_user_by_email_def demo_auth_service_def
        demo_pwd_context_def demo_user_def get_current_active_user_dead_check
        get_current_user_def demo_verify_token_def demo_token_decodes payload_sub_def
        Depends_def Backend_login_def Backend_authenticate_user_def
        Backend_verify_password_def Backend_get_current_user_def Backend_get_users_def
        Backend_check_permission_def rank_def role_hierarchy_def)

section \<open>Registration\<close>

lemma weak_password_exception_distinct:
  "weak_password_exception \<noteq> HTTPException HTTP_400_BAD_REQUEST ''Email already registered''"
  by (simp add: weak_password_exception_def)

lemma register_user_with_strength_check:
  "fst (register_user (with_strength_check svc) now user_data users)
       = Inl weak_password_exception
     \<longleftrightarrow> \<not> validate_password_strength_spec (password user_data)"
  using weak_password_exception_distinct
  by (auto simp add: register_user_def create_user_def Let_def)

text \<open>
  Claim C4 says that registering fails as a weak password exactly when the password misses
  the policy, and that the password \<^verbatim>\<open>weak\<close> is refused so. In the modular tree the schema of
  the body refuses \<^verbatim>\<open>weak\<close> first, with the validation error of the framework, and
  \<^verbatim>\<open>register_user\<close> is not called. \<^verbatim>\<open>Backend.py\<close> checks no password: with \<^verbatim>\<open>weak\<close> it
  stores the user and answers with a token.
\<close>

theorem C4_counterexample:
  "\<not> validate_password_strength_spec ''weak''
   \<and> post_register demo_email_ok (demo_auth_service 60) 60
        ''n@example.com'' ''weak'' ''New User'' None []
       = (Inl RequestValidationError, [])
   \<and> \<not> isl (fst (Backend_post_register demo_email_ok demo_pwd_context 60
                    ''n@example.com'' ''weak'' ''New User'' None []))
   \<and> \<not> isl (projr (fst (Backend_post_register demo_email_ok demo_pwd_context 60
                           ''n@example.com'' ''weak'' ''New User'' None [])))
   \<and> map_option hashed_password
        (map_of (snd (Backend_post_register demo_email_ok demo_pwd_context 60
                        ''n@example.com'' ''weak'' ''New User'' None [])) ''n@example.com'')
       = Some ''$2b$weak''"
  by (simp add: validate_password_strength_spec_def post_register_def
        Backend_post_register_def UserCreate_of_request_def UserCreate_valid_def
        Backend_UserCreate_valid_def demo_email_ok_def Backend_register_def
        Backend_get_password_hash_def demo_pwd_context_def Let_def)

text \<open>
  Claim C4, amended. In the modular tree a registration whose password has fewer than 8 or
  more than 100 characters, \<^verbatim>\<open>weak\<close> among them, is refused by the schema of the body with
  a validation error; a registration that passes the schema fails with the 400 of the
  password policy exactly when its password does not satisfy the strength check (length at
  least 8, an upper-case letter, a lower-case letter, a digit); in both cases the store is
  unchanged and no token is issued. \<^verbatim>\<open>Abcdef12\<close> passes the schema and the check, and with
  it the registration of a new address succeeds and stores the user.
\<close>

theorem C4_weak_password:
  "(length pw < 8 \<or> 100 < length pw \<longrightarrow>
      post_register email_ok (with_strength_check svc) now e pw fn r users
        = (Inl RequestValidationError, users))
   \<and> (UserCreate_valid email_ok (UserCreate_of_request e pw fn r) \<longrightarrow>
        (fst (post_register email_ok (with_strength_check svc) now e pw fn r users)
             = Inr (Inl weak_password_exception)
           \<longleftrightarrow> \<not> validate_password_strength_spec pw)
        \<and> (\<not> validate_password_strength_spec pw \<longrightarrow>
             post_register email_ok (with_strength_check svc) now e pw fn r users
               = (Inr (Inl weak_password_exception), users)))
   \<and> post_register email_ok (with_strength_check svc) now e ''weak'' fn r users
       = (Inl RequestValidationError, users)
   \<and> validate_password_strength_spec ''Abcdef12''
   \<and> (UserCreate_valid email_ok (UserCreate_of_request e ''Abcdef12'' fn r)
        \<and> map_of users e = None \<longrightarrow>
        \<not> isl (fst (post_register email_ok (with_strength_check svc) now e ''Abcdef12'' fn r
                      users))
        \<and> \<not> isl (projr (fst (post_register email_ok (with_strength_check svc) now e
                                ''Abcdef12'' fn r users)))
        \<and> map_of (snd (post_register email_ok (with_strength_check svc) now e ''Abcdef12''
                          fn r users)) e \<noteq> None)"
proof -
  let ?post = "\<lambda>pw. post_register email_ok (with_strength_check svc) now e pw fn r users"
  have strong: "validate_password_strength_spec ''Abcdef12''"
    by (simp add: validate_password_strength_spec_def)
  have schema: "?post pw = (Inl RequestValidationError, users)"
    if "length pw < 8 \<or> 100 < length pw" for pw
    using that
    by (auto simp add: post_register_def UserCreate_valid_def UserCreate_of_request_def)
  have weak: "?post ''weak'' = (Inl RequestValidationError, users)"
    by (rule schema) simp
  have called: "?post pw =
      (Inr (fst (register_user (with_strength_check svc) now
                   (UserCreate_of_request e pw fn r) users)),
       snd (register_user (with_strength_check svc) now
              (UserCreate_of_request e pw fn r) users))"
    if "UserCreate_valid email_ok (UserCreate_of_request e pw fn r)" for pw
    using that by (simp add: post_register_def split: prod.splits)
  have iff: "fst (?post pw) = Inr (Inl weak_password_exception)
               \<longleftrightarrow> \<not> validate_password_strength_spec pw"
    if "UserCreate_valid email_ok (UserCreate_of_request e pw fn r)"
    using register_user_with_strength_check
      [of svc now "UserCreate_of_request e pw fn r" users]
    by (simp add: called [OF that] UserCreate_of_request_def)
  have unchanged: "?post pw = (Inr (Inl weak_password_exception), users)"
    if "UserCreate_valid email_ok (UserCreate_of_request e pw fn r)"
      "\<not> validate_password_strength_spec pw"
    using that(2)
    by (simp add: called [OF that(1)] register_user_def UserCreate_of_request_def)
  have succeeds: "\<not> isl (fst (?post ''Abcdef12'')) \<and> \<not> isl (projr (fst (?post ''Abcdef12'')))
      \<and> map_of (snd (?post ''Abcdef12'')) e \<noteq> None"
    if "UserCreate_valid email_ok (UserCreate_of_request e ''Abcdef12'' fn r)"
      "map_of users e = None"
    using that(2) strong
    by (simp add: called [OF that(1)] register_user_def create_user_def
          UserCreate_of_request_def Let_def AList.update_conv')
  from strong schema [of pw] weak iff unchanged succeeds show ?thesis
    by blast
qed

theorem C4_weak_password_witness:
  "UserCreate_valid demo_email_ok
     (UserCreate_of_request ''n@example.com'' ''Abcdefgh'' ''New User'' None)
   \<and> post_register demo_email_ok (with_strength_check (demo_auth_service 60)) 60
        ''n@example.com'' ''Abcdefgh'' ''New User'' None []
       = (Inr (Inl weak_password_exception), [])
   \<and> post_register demo_email_ok (with_strength_check (demo_auth_service 60)) 60
        ''n@example.com'' ''weak'' ''New User'' None []
       = (Inl RequestValidationError, [])
   \<and> \<not> isl (projr (fst (post_register demo_email_ok
                           (with_strength_check (demo_auth_service 60)) 60
                           ''n@example.com'' ''Abcdef12'' ''New User'' None [])))"
proof -
  have 1: "UserCreate_valid demo_email_ok
             (UserCreate_of_request ''n@example.com'' ''Abcdefgh'' ''New User'' None)"
    by (simp add: UserCreate_valid_def UserCreate_of_request_def demo_email_ok_def)
  have 2: "\<not> validate_password_strength_spec ''Abcdefgh''"
    by (simp add: validate_password_strength_spec_def)
  have 3: "UserCreate_valid demo_email_ok
             (UserCreate_of_request ''n@example.com'' ''Abcdef12'' ''New User'' None)"
    by (simp add: UserCreate_valid_def UserCreate_of_request_def demo_email_ok_def)
  have 4: "map_of ([] :: users_db) ''n@example.com'' = None"
    by simp
  from C4_weak_password [of "''Abcdefgh''" demo_email_ok "demo_auth_service 60" 60
      "''n@example.com''" "''New User''" None "[]"] 1 2 3 4
  show ?thesis
    by blast
qed

text \<open>
  Claim C8. A registration stores the user with the role that the request supplies, any of
  the four, and with viewer when the request supplies none. Neither \<^verbatim>\<open>register\<close> takes the
  caller's identity: nothing is compared with the role asked for.
\<close>

theorem C8_registration_role:
  assumes "map_of users e = None"
  shows "(validate_password_strength svc pw \<longrightarrow>
            map_option role
              (map_of (snd (register_user svc now (UserCreate_of_request e pw fn r) users)) e)
              = Some (case r of None \<Rightarrow> VIEWER | Some supplied \<Rightarrow> supplied)
            \<and> (case fst (register_user svc now (UserCreate_of_request e pw fn r) users) of
                 Inl _ \<Rightarrow> None | Inr t \<Rightarrow> Some (role (user t)))
              = Some (case r of None \<Rightarrow> VIEWER | Some supplied \<Rightarrow> supplied))
       \<and> map_option role
           (map_of (snd (Backend_register ctx now (UserCreate_of_request e pw fn r) users)) e)
           = Some (case r of None \<Rightarrow> VIEWER | Some supplied \<Rightarrow> supplied)
       \<and> (case fst (Backend_register ctx now (UserCreate_of_request e pw fn r) users) of
            Inl _ \<Rightarrow> None | Inr t \<Rightarrow> Some (role (user t)))
           = Some (case r of None \<Rightarrow> VIEWER | Some supplied \<Rightarrow> supplied)"
  using assms
  by (simp add: register_user_def create_user_def Backend_register_def
        UserCreate_of_request_def Let_def AList.update_conv'
        User.defs UserResponse.defs)

theorem C8_registration_role_witness:
  "map_option role
     (map_of (snd (register_user (demo_auth_service 60) 60
                     (UserCreate_of_request ''n@example.com'' ''Abcdef12'' ''New User''
                        (Some ADMIN)) [])) ''n@example.com'')
     = Some ADMIN
   \<and> map_option role
       (map_of (snd (Backend_register demo_pwd_context 60
                       (UserCreate_of_request ''n@example.com'' ''weak'' ''New User'' None)
                       [])) ''n@example.com'')
     = Some VIEWER"
proof -
  have 1: "map_of ([] :: users_db) ''n@example.com'' = None"
    by simp
  have 2: "validate_password_strength (demo_auth_service 60) ''Abcdef12''"
    by (simp add: demo_auth_service_def validate_password_strength_spec_def)
  from C8_registration_role [OF 1, of "demo_auth_service 60" "''Abcdef12''" 60
      "''New User''" "Some ADMIN"]
    C8_registration_role [OF 1, of _ _ 60 "''New User''" None demo_pwd_context, of _ "''weak''"]
    2
  show ?thesis
    by simp
qed

section \<open>Tokens: expiry and round trip\<close>

text \<open>
  Claim C5. A token issued at \<open>t0\<close> with a time to live of \<open>T\<close> minutes verifies at every
  instant up to \<open>t0 + T\<close>, and at every later instant verification fails as expired and in
  no other way; the same for the 30 minutes of the source.
\<close>

theorem C5_token_expiry:
  "jwt_decode (Backend_create_access_token T data t0) SECRET_KEY t =
     (if t \<le> t0 + 60 * T then Inr (data(''exp'' \<mapsto> IntDate (t0 + 60 * T)))
      else Inl ExpiredSignatureError)
   \<and> jwt_decode (Backend_create_access_token ACCESS_TOKEN_EXPIRE_MINUTES data t0) SECRET_KEY t =
       (if t \<le> t0 + 1800 then Inr (data(''exp'' \<mapsto> IntDate (t0 + 1800)))
        else Inl ExpiredSignatureError)"
  by (simp add: Backend_create_access_token_def jwt_encode_def jwt_decode_def
        ACCESS_TOKEN_EXPIRE_MINUTES_def Let_def not_less)

theorem C5_token_expiry_witness:
  "jwt_decode (Backend_create_access_token 30 [''sub'' \<mapsto> Str ''a@example.com''] 100)
       SECRET_KEY 1900
     = Inr [''sub'' \<mapsto> Str ''a@example.com'', ''exp'' \<mapsto> IntDate 1900]
   \<and> jwt_decode (Backend_create_access_token 30 [''sub'' \<mapsto> Str ''a@example.com''] 100)
       SECRET_KEY 1901
     = Inl ExpiredSignatureError"
  using C5_token_expiry [of 30 "[''sub'' \<mapsto> Str ''a@example.com'']" 100 1900]
    C5_token_expiry [of 30 "[''sub'' \<mapsto> Str ''a@example.com'']" 100 1901]
  by simp

text \<open>
  In \<^verbatim>\<open>get_current_user\<close> of \<^verbatim>\<open>Backend.py\<close> the expired token is answered with the 401 of
  every other token error.
\<close>

lemma Backend_get_current_user_expired:
  assumes "t > t0 + 60 * T"
  shows "Backend_get_current_user t (Backend_create_access_token T data t0) db
           = (Inl credentials_exception, db)"
  using assms
  by (simp add: Backend_get_current_user_def Backend_create_access_token_def jwt_encode_def
        jwt_decode_def Let_def)

text \<open>
  Claim C6. Verifying a token right after it was issued for a subject succeeds and returns
  that subject; so does verifying it at any instant within its time to live.
\<close>

theorem C6_token_round_trip:
  "(case jwt_decode
           (Backend_create_access_token ACCESS_TOKEN_EXPIRE_MINUTES [''sub'' \<mapsto> Str s] t0)
           SECRET_KEY t0 of
      Inl _ \<Rightarrow> None | Inr p \<Rightarrow> payload_sub p) = Some s
   \<and> (t \<le> t0 + 60 * T \<longrightarrow>
        (case jwt_decode (Backend_create_access_token T [''sub'' \<mapsto> Str s] t0) SECRET_KEY t of
           Inl _ \<Rightarrow> None | Inr p \<Rightarrow> payload_sub p) = Some s)"
  by (simp add: Backend_create_access_token_def jwt_encode_def jwt_decode_def
        ACCESS_TOKEN_EXPIRE_MINUTES_def Let_def payload_sub_def)

theorem C6_token_round_trip_witness:
  "(1795::int) \<le> 0 + 60 * 30
   \<and> (case jwt_decode (Backend_create_access_token 30 [''sub'' \<mapsto> Str ''a@example.com''] 0)
             SECRET_KEY 1795 of
        Inl _ \<Rightarrow> None | Inr p \<Rightarrow> payload_sub p) = Some ''a@example.com''"
  using C6_token_round_trip [of "''a@example.com''" 0 1795 30]
  by simp

section \<open>Login\<close>

text \<open>
  Claim C7. A login for an address that the store does not hold and a login with a
  password that does not verify fail with one and the same error, the 401 of the login, in
  each of the two trees; the store is unchanged.
\<close>

theorem C7_login_one_error:
  "(map_of users e = None
      \<or> (\<exists>u. map_of users e = Some u \<and> \<not> verify_password svc pw (hashed_password u))
     \<longrightarrow> login_user svc now \<lparr>login_email = e, login_password = pw\<rparr> users
           = (Inl (HTTPException HTTP_401_UNAUTHORIZED ''Invalid email or password''), users))
   \<and> (map_of users e = None
        \<or> (\<exists>u. map_of users e = Some u \<and> \<not> pwd_context_verify ctx pw (hashed_password u))
       \<longrightarrow> Backend_login ctx now \<lparr>login_email = e, login_password = pw\<rparr> users
             = (Inl (HTTPException HTTP_401_UNAUTHORIZED ''Incorrect email or password''),
                users))"
  by (auto simp add: login_user_def get_user_by_email_def Backend_login_def
        Backend_authenticate_user_def Backend_verify_password_def)

theorem C7_login_one_error_witness:
  "login_user (demo_auth_service 60) 60
      \<lparr>login_email = ''nobody@example.com'', login_password = ''secret''\<rparr>
      [(''a@example.com'', demo_user ''a@example.com'' ANALYST True)]
     = (Inl (HTTPException HTTP_401_UNAUTHORIZED ''Invalid email or password''),
        [(''a@example.com'', demo_user ''a@example.com'' ANALYST True)])
   \<and> login_user (demo_auth_service 60) 60
      \<lparr>login_email = ''a@example.com'', login_password = ''wrong''\<rparr>
      [(''a@example.com'', demo_user ''a@example.com'' ANALYST True)]
     = (Inl (HTTPException HTTP_401_UNAUTHORIZED ''Invalid email or password''),
        [(''a@example.com'', demo_user ''a@example.com'' ANALYST True)])
   \<and> Backend_login demo_pwd_context 60
      \<lparr>login_email = ''a@example.com'', login_password = ''wrong''\<rparr>
      [(''a@example.com'', demo_user ''a@example.com'' ANALYST True)]
     = (Inl (HTTPException HTTP_401_UNAUTHORIZED ''Incorrect email or password''),
        [(''a@example.com'', demo_user ''a@example.com'' ANALYST True)])"
proof -
  let ?a = "demo_user ''a@example.com'' ANALYST True"
  have 1: "map_of [(''a@example.com'', ?a)] ''nobody@example.com'' = None"
    by simp
  have 2: "\<exists>u. map_of [(''a@example.com'', ?a)] ''a@example.com'' = Some u
             \<and> \<not> verify_password (demo_auth_service 60) ''wrong'' (hashed_password u)"
    by (simp add: demo_auth_service_def demo_pwd_context_def demo_user_def)
  have 3: "\<exists>u. map_of [(''a@example.com'', ?a)] ''a@example.com'' = Some u
             \<and> \<not> pwd_context_verify demo_pwd_context ''wrong'' (hashed_password u)"
    by (simp add: demo_pwd_context_def demo_user_def)
  from C7_login_one_error [of "[(''a@example.com'', ?a)]" "''nobody@example.com''"
      "demo_auth_service 60" "''secret''" 60 demo_pwd_context]
    C7_login_one_error [of "[(''a@example.com'', ?a)]" "''a@example.com''"
      "demo_auth_service 60" "''wrong''" 60 demo_pwd_context]
    1 2 3
  show ?thesis
    by blast
qed

section \<open>The gate writes nothing\<close>

lemma snd_Depends: "snd (Depends dependency operation) = snd dependency"
  by (simp add: Depends_def split: prod.splits sum.splits)

lemma snd_get_current_user: "snd (get_current_user svc tok users) = users"
  by (simp add: get_current_user_def get_user_by_email_def
        split: sum.splits option.splits prod.splits)

lemma snd_Backend_get_current_user: "snd (Backend_get_current_user now tok db) = db"
  by (simp add: Backend_get_current_user_def
        split: sum.splits option.splits claim_value.splits)

lemma fst_Depends:
  "fst (Depends dependency operation) =
     (case fst dependency of Inl e \<Rightarrow> Inl e | Inr u \<Rightarrow> operation u)"
  by (simp add: Depends_def split: prod.splits sum.splits)

lemma fst_get_current_user_cong:
  assumes "\<And>p e. verify_token svc tok = Inr p \<Longrightarrow> payload_sub p = Some e
             \<Longrightarrow> map_of users e = map_of users' e"
  shows "fst (get_current_user svc tok users) = fst (get_current_user svc tok users')"
proof (cases "verify_token svc tok")
  case (Inl err)
  then show ?thesis
    by (simp add: get_current_user_def)
next
  case (Inr p)
  show ?thesis
  proof (cases "payload_sub p")
    case None
    with Inr show ?thesis
      by (simp add: get_current_user_def get_user_by_email_def)
  next
    case (Some e)
    with Inr assms have "map_of users e = map_of users' e"
      by blast
    with Inr Some show ?thesis
      by (simp add: get_current_user_def get_user_by_email_def split: option.splits)
  qed
qed

lemma fst_Backend_get_current_user_cong:
  assumes "\<And>p e. jwt_decode tok SECRET_KEY now = Inr p \<Longrightarrow> payload_sub p = Some e
             \<Longrightarrow> map_of db e = map_of db' e"
  shows "fst (Backend_get_current_user now tok db) = fst (Backend_get_current_user now tok db')"
proof (cases "jwt_decode tok SECRET_KEY now")
  case (Inl err)
  then show ?thesis
    by (simp add: Backend_get_current_user_def)
next
  case (Inr p)
  show ?thesis
  proof (cases "payload_sub p")
    case None
    with Inr show ?thesis
      by (simp add: Backend_get_current_user_def payload_sub_def
            split: option.splits claim_value.splits)
  next
    case (Some e)
    then have sub: "p ''sub'' = Some (Str e)"
      by (simp add: payload_sub_def split: option.splits claim_value.splits)
    from Inr Some assms have "map_of db e = map_of db' e"
      by blast
    with Inr sub show ?thesis
      by (simp add: Backend_get_current_user_def split: option.splits)
  qed
qed

text \<open>
  Claim C9. The gate (verify the token, resolve the user, check that the user is active,
  check the permission) returns the store as it was given, on every input and whatever the
  outcome, in both trees; and its outcome depends on the store only through the entry of
  the subject of the token: the one read of the resolve step.
\<close>

theorem C9_gate_frame:
  "snd (get_current_user svc tok users) = users
   \<and> snd (get_current_active_user svc tok users) = users
   \<and> snd (Depends (get_current_active_user svc tok users)
             (\<lambda>u. require_permission (role_value (role u)) required_permission)) = users
   \<and> snd (Backend_get_current_user now tok db) = db
   \<and> snd (Depends (Backend_get_current_user now tok db)
             (\<lambda>u. Backend_check_permission u required_role)) = db
   \<and> ((\<forall>p e. verify_token svc tok = Inr p \<and> payload_sub p = Some e
              \<longrightarrow> map_of users e = map_of users' e)
        \<longrightarrow> fst (Depends (get_current_active_user svc tok users)
                   (\<lambda>u. require_permission (role_value (role u)) required_permission))
            = fst (Depends (get_current_active_user svc tok users')
                     (\<lambda>u. require_permission (role_value (role u)) required_permission)))
   \<and> ((\<forall>p e. jwt_decode tok SECRET_KEY now = Inr p \<and> payload_sub p = Some e
              \<longrightarrow> map_of db e = map_of db' e)
        \<longrightarrow> fst (Depends (Backend_get_current_user now tok db)
                   (\<lambda>u. Backend_check_permission u required_role))
            = fst (Depends (Backend_get_current_user now tok db')
                     (\<lambda>u. Backend_check_permission u required_role)))"
proof (intro conjI impI)
  show "snd (get_current_user svc tok users) = users"
    by (rule snd_get_current_user)
  show "snd (get_current_active_user svc tok users) = users"
    by (simp add: get_current_active_user_def snd_Depends snd_get_current_user)
  then show "snd (Depends (get_current_active_user svc tok users)
             (\<lambda>u. require_permission (role_value (role u)) required_permission)) = users"
    by (simp add: snd_Depends)
  show "snd (Backend_get_current_user now tok db) = db"
    by (rule snd_Backend_get_current_user)
  then show "snd (Depends (Backend_get_current_user now tok db)
             (\<lambda>u. Backend_check_permission u required_role)) = db"
    by (simp add: snd_Depends)
next
  assume "\<forall>p e. verify_token svc tok = Inr p \<and> payload_sub p = Some e
            \<longrightarrow> map_of users e = map_of users' e"
  then have "fst (get_current_user svc tok users) = fst (get_current_user svc tok users')"
    by (intro fst_get_current_user_cong) blast
  then show "fst (Depends (get_current_active_user svc tok users)
                   (\<lambda>u. require_permission (role_value (role u)) required_permission))
            = fst (Depends (get_current_active_user svc tok users')
                     (\<lambda>u. require_permission (role_value (role u)) required_permission))"
    by (simp add: fst_Depends get_current_active_user_def)
next
  assume "\<forall>p e. jwt_decode tok SECRET_KEY now = Inr p \<and> payload_sub p = Some e
            \<longrightarrow> map_of db e = map_of db' e"
  then have "fst (Backend_get_current_user now tok db) = fst (Backend_get_current_user now tok db')"
    by (intro fst_Backend_get_current_user_cong) blast
  then show "fst (Depends (Backend_get_current_user now tok db)
                   (\<lambda>u. Backend_check_permission u required_role))
            = fst (Depends (Backend_get_current_user now tok db')
                     (\<lambda>u. Backend_check_permission u required_role))"
    by (simp add: fst_Depends)
qed

theorem C9_gate_frame_witness:
  "Depends (get_current_active_user (demo_auth_service 60) (demo_token ''a@example.com'')
              [(''a@example.com'', demo_user ''a@example.com'' ANALYST True)])
      (\<lambda>u. require_permission (role_value (role u)) ''analytics:read'')
     = (Inr (), [(''a@example.com'', demo_user ''a@example.com'' ANALYST True)])
   \<and> fst (Depends (get_current_active_user (demo_auth_service 60)
                     (demo_token ''a@example.com'')
                     [(''a@example.com'', demo_user ''a@example.com'' ANALYST True),
                      (''v@example.com'', demo_user ''v@example.com'' VIEWER False)])
            (\<lambda>u. require_permission (role_value (role u)) ''analytics:read''))
     = Inr ()"
proof -
  let ?a = "demo_user ''a@example.com'' ANALYST True"
  let ?users = "[(''a@example.com'', ?a)]"
  let ?users' = "[(''a@example.com'', ?a),
                  (''v@example.com'', demo_user ''v@example.com'' VIEWER False)]"
  let ?tok = "demo_token ''a@example.com''"
  have read: "\<forall>p e. verify_token (demo_auth_service 60) ?tok = Inr p \<and> payload_sub p = Some e
                \<longrightarrow> map_of ?users e = map_of ?users' e"
    by (auto simp add: demo_token_verifies payload_sub_def)
  have run: "fst (Depends (get_current_active_user (demo_auth_service 60) ?tok ?users)
                    (\<lambda>u. require_permission (role_value (role u)) ''analytics:read''))
               = Inr ()"
    by (simp add: fst_Depends get_current_active_user_def get_current_user_def
          get_user_by_email_def demo_token_verifies payload_sub_def demo_user_def
          require_permission_def PermissionService_check_permission_def permissionsOf_def
          ROLE_PERMISSIONS_def)
  from C9_gate_frame [of "demo_auth_service 60" ?tok ?users "''analytics:read''" 60 "[]"
      ANALYST ?users' "[]"] read run
  show ?thesis
    by (metis prod.collapse)
qed

end
